theory Spec2Isabelle
  imports Complex_Main
begin

section \<open>Numbers\<close>

text \<open>
  The source computes with two numeric types: \<^verbatim>\<open>Decimal\<close> of decimal.js and the
  native \<^verbatim>\<open>number\<close>. Both are embedded in one type: a finite value is the real
  number it stands for, and the three special values of either type (\<^verbatim>\<open>Infinity\<close>,
  \<^verbatim>\<open>-Infinity\<close>, \<^verbatim>\<open>NaN\<close>) are constructors of their own, so that a division by zero
  is visible in the model as it is in the program. Finite arithmetic is exact: neither the
  rounding of \<^verbatim>\<open>Decimal\<close> to its working precision nor the rounding of \<^verbatim>\<open>number\<close> to a
  binary double is modelled, finite results never overflow, and the two zeros are not
  told apart (every zero divisor of the source is a difference of two values, a square root
  or a decoded unsigned price, hence \<^verbatim>\<open>+0\<close>). The conversions \<^verbatim>\<open>new Decimal(x.toString())\<close> and
  \<^verbatim>\<open>Number(d.toString())\<close> are the identity.
\<close>

datatype number = Fin real | PosInf | NegInf | NaN

type_synonym Decimal = number

definition inf_of :: "real \<Rightarrow> number" where
  "inf_of s = (if 0 < s then PosInf else if s < 0 then NegInf else NaN)"

fun sign_of :: "number \<Rightarrow> real" where
  "sign_of (Fin a) = sgn a"
| "sign_of PosInf = 1"
| "sign_of NegInf = - 1"
| "sign_of NaN = 0"

text \<open>\<^verbatim>\<open>x * y\<close>: a product with \<^verbatim>\<open>NaN\<close> is \<^verbatim>\<open>NaN\<close>, zero times an infinity is
  \<^verbatim>\<open>NaN\<close>, any other product with an infinity is the infinity of the product's sign.\<close>

fun n_mul :: "number \<Rightarrow> number \<Rightarrow> number" where
  "n_mul (Fin a) (Fin b) = Fin (a * b)"
| "n_mul NaN y = NaN"
| "n_mul x NaN = NaN"
| "n_mul x y = inf_of (sign_of x * sign_of y)"

text \<open>\<^verbatim>\<open>x / y\<close>: a finite value over zero is an infinity of the numerator's sign, and
  \<^verbatim>\<open>NaN\<close> when the numerator is zero too; a finite value over an infinity is zero; an
  infinity over an infinity is \<^verbatim>\<open>NaN\<close>.\<close>

fun n_div :: "number \<Rightarrow> number \<Rightarrow> number" where
  "n_div (Fin a) (Fin b) = (if b = 0 then inf_of (sgn a) else Fin (a / b))"
| "n_div NaN y = NaN"
| "n_div x NaN = NaN"
| "n_div (Fin a) y = Fin 0"
| "n_div x (Fin b) = inf_of (sign_of x * (if b < 0 then - 1 else 1))"
| "n_div x y = NaN"

fun n_neg :: "number \<Rightarrow> number" where
  "n_neg (Fin a) = Fin (- a)"
| "n_neg PosInf = NegInf"
| "n_neg NegInf = PosInf"
| "n_neg NaN = NaN"

fun n_add :: "number \<Rightarrow> number \<Rightarrow> number" where
  "n_add (Fin a) (Fin b) = Fin (a + b)"
| "n_add NaN y = NaN"
| "n_add x NaN = NaN"
| "n_add PosInf NegInf = NaN"
| "n_add NegInf PosInf = NaN"
| "n_add PosInf y = PosInf"
| "n_add NegInf y = NegInf"
| "n_add x y = y"

definition n_sub :: "number \<Rightarrow> number \<Rightarrow> number" where
  "n_sub x y = n_add x (n_neg y)"

text \<open>The comparisons \<^verbatim>\<open>x <= y\<close>, \<^verbatim>\<open>x < y\<close> and \<^verbatim>\<open>x >= y\<close>: false as soon as one
  side is \<^verbatim>\<open>NaN\<close>.\<close>

fun n_le :: "number \<Rightarrow> number \<Rightarrow> bool" where
  "n_le (Fin a) (Fin b) = (a \<le> b)"
| "n_le NaN y = False"
| "n_le x NaN = False"
| "n_le NegInf y = True"
| "n_le x PosInf = True"
| "n_le x y = False"

fun n_lt :: "number \<Rightarrow> number \<Rightarrow> bool" where
  "n_lt (Fin a) (Fin b) = (a < b)"
| "n_lt NaN y = False"
| "n_lt x NaN = False"
| "n_lt PosInf y = False"
| "n_lt x NegInf = False"
| "n_lt x y = True"

definition n_ge :: "number \<Rightarrow> number \<Rightarrow> bool" where
  "n_ge x y = n_le y x"

text \<open>\<^verbatim>\<open>Math.min(x, y)\<close>: \<^verbatim>\<open>NaN\<close> if either argument is.\<close>

fun n_min :: "number \<Rightarrow> number \<Rightarrow> number" where
  "n_min NaN y = NaN"
| "n_min x NaN = NaN"
| "n_min x y = (if n_le x y then x else y)"

text \<open>\<^verbatim>\<open>Math.sqrt(x)\<close>: \<^verbatim>\<open>NaN\<close> below zero.\<close>

fun n_sqrt :: "number \<Rightarrow> number" where
  "n_sqrt (Fin a) = (if a < 0 then NaN else Fin (sqrt a))"
| "n_sqrt PosInf = PosInf"
| "n_sqrt NegInf = NaN"
| "n_sqrt NaN = NaN"

text \<open>\<^verbatim>\<open>10 ** d\<close> for a token's decimals \<open>d\<close> (a \<^verbatim>\<open>uint8\<close> in the token ABI).\<close>

definition pow10 :: "nat \<Rightarrow> number" where
  "pow10 d = Fin (10 ^ d)"

text \<open>\<^verbatim>\<open>x.pow(-1)\<close> of decimal.js: the reciprocal, \<^verbatim>\<open>Infinity\<close> at zero.\<close>

definition pow_m1 :: "Decimal \<Rightarrow> Decimal" where
  "pow_m1 x = n_div (Fin 1) x"

section \<open>Liquidity from amounts\<close>

text \<open>\<^verbatim>\<open>calculateV3Liquidity\<close> (lines 39--58).\<close>

definition calculateV3Liquidity ::
  "number \<Rightarrow> number \<Rightarrow> number \<Rightarrow> number \<Rightarrow> number \<Rightarrow> number" where
  "calculateV3Liquidity amountX amountY sqrtPriceCurrent sqrtPriceLower sqrtPriceUpper =
     (if n_le sqrtPriceCurrent sqrtPriceLower then
        n_div (n_mul amountX (n_mul sqrtPriceUpper sqrtPriceLower))
              (n_sub sqrtPriceUpper sqrtPriceLower)
      else if n_ge sqrtPriceCurrent sqrtPriceUpper then
        n_div amountY (n_sub sqrtPriceUpper sqrtPriceLower)
      else
        (let lx = n_div (n_mul amountX (n_mul sqrtPriceUpper sqrtPriceCurrent))
                        (n_sub sqrtPriceUpper sqrtPriceCurrent);
             ly = n_div amountY (n_sub sqrtPriceCurrent sqrtPriceLower)
         in n_min lx ly))"

section \<open>Chain reads\<close>

text \<open>
  The contract calls of the source are awaited reads of chain state at the queried
  block. A read is an input of the model: \<open>Some\<close> of the decoded answer, or \<open>None\<close>
  when the call rejects. The integers of an answer are the \<^verbatim>\<open>bigint\<close> values that
  ethers decodes.
\<close>

record position =
  pos_liquidity :: int
  pos_tickLower :: int
  pos_tickUpper :: int

record slot0 =
  slot0_sqrtPriceX96 :: int
  slot0_tick :: int

record collected =
  fee_amount0 :: int
  fee_amount1 :: int

text \<open>The position manager: \<^verbatim>\<open>positions(positionId)\<close> and the static call of
  \<^verbatim>\<open>collect\<close>.\<close>

record nft_contract =
  positions :: "position option"
  collect_staticCall :: "collected option"

text \<open>A pool: \<^verbatim>\<open>slot0()\<close>, and the \<^verbatim>\<open>decimals()\<close> of the tokens that
  \<^verbatim>\<open>token0()\<close> and \<^verbatim>\<open>token1()\<close> name (\<open>None\<close> when the address read or the
  decimals read rejects).\<close>

record pool_contract =
  pool_slot0 :: "slot0 option"
  pool_decimals0 :: "nat option"
  pool_decimals1 :: "nat option"

datatype error = PositionsRejected | Slot0Rejected | DecimalsRejected | BlockNumberRejected

section \<open>Fixed-point price math\<close>

text \<open>\<^verbatim>\<open>sqrtPriceX96.div(new Decimal(2).pow(96))\<close> (lines 90 and 156--157). The divisor
  and the quotient are exact here; decimal.js rounds each to its working precision, so that
  the decoded value of the code can differ from this one in its last digit.\<close>

definition decodeSqrtPrice :: "int \<Rightarrow> Decimal" where
  "decodeSqrtPrice sqrtPriceX96 = n_div (Fin (real_of_int sqrtPriceX96)) (Fin (2 ^ 96))"

text \<open>\<^verbatim>\<open>new Decimal(1.0001).pow(tick / 2)\<close> (lines 91--92).\<close>

definition sqrtPriceFromTick :: "int \<Rightarrow> Decimal" where
  "sqrtPriceFromTick t = Fin (1.0001 powr (real_of_int t / 2))"

text \<open>The decimal adjustment of the pool price (lines 161--165).\<close>

definition adjustForDecimals :: "Decimal \<Rightarrow> nat \<Rightarrow> nat \<Rightarrow> Decimal" where
  "adjustForDecimals price decimals0 decimals1 =
     (let decimalDiff = int decimals0 - int decimals1;
          decimalAdjustment = Fin (10 ^ nat \<bar>decimalDiff\<bar>)
      in if decimalDiff \<ge> 0 then n_mul price decimalAdjustment
         else n_div price decimalAdjustment)"

section \<open>Position decomposition\<close>

text \<open>The branch that lines 96--105 take.\<close>

datatype range_branch = BelowRange | AboveRange | WithinRange

definition positionBranch :: "int \<Rightarrow> int \<Rightarrow> int \<Rightarrow> range_branch" where
  "positionBranch currentTick tickLower tickUpper =
     (if currentTick < tickLower then BelowRange
      else if currentTick > tickUpper then AboveRange
      else WithinRange)"

text \<open>The amounts of lines 82--105, from the answers of \<^verbatim>\<open>positions\<close> and
  \<^verbatim>\<open>slot0\<close>.\<close>

definition positionAmounts :: "position \<Rightarrow> slot0 \<Rightarrow> Decimal \<times> Decimal" where
  "positionAmounts p s =
     (let liquidity = Fin (real_of_int (pos_liquidity p));
          tickLower = pos_tickLower p;
          tickUpper = pos_tickUpper p;
          sqrtPriceX96 = slot0_sqrtPriceX96 s;
          currentTick = slot0_tick s;
          sqrtPriceCurrent = decodeSqrtPrice sqrtPriceX96;
          sqrtPriceLower = sqrtPriceFromTick tickLower;
          sqrtPriceUpper = sqrtPriceFromTick tickUpper
      in case positionBranch currentTick tickLower tickUpper of
           BelowRange \<Rightarrow>
             (n_mul liquidity (n_sub (pow_m1 sqrtPriceLower) (pow_m1 sqrtPriceUpper)), Fin 0)
         | AboveRange \<Rightarrow>
             (Fin 0, n_mul liquidity (n_sub sqrtPriceUpper sqrtPriceLower))
         | WithinRange \<Rightarrow>
             (n_mul liquidity (n_sub (pow_m1 sqrtPriceCurrent) (pow_m1 sqrtPriceUpper)),
              n_mul liquidity (n_sub sqrtPriceCurrent sqrtPriceLower)))"

text \<open>\<^verbatim>\<open>getPositionAmounts\<close> (lines 73--134): a rejected \<^verbatim>\<open>positions\<close> or
  \<^verbatim>\<open>slot0\<close> read rejects the call; a rejected \<^verbatim>\<open>collect\<close> simulation is caught and
  both fees are 0.\<close>

definition getPositionAmounts ::
  "nft_contract \<Rightarrow> pool_contract \<Rightarrow> error + (number \<times> number \<times> number \<times> number)" where
  "getPositionAmounts nftContract poolContract =
     (case positions nftContract of
        None \<Rightarrow> Inl PositionsRejected
      | Some p \<Rightarrow>
         (case pool_slot0 poolContract of
            None \<Rightarrow> Inl Slot0Rejected
          | Some s \<Rightarrow>
             (let (amount0, amount1) = positionAmounts p s
              in case collect_staticCall nftContract of
                   Some unclaimedFees \<Rightarrow>
                     Inr (amount0, amount1,
                          Fin (real_of_int (fee_amount0 unclaimedFees)),
                          Fin (real_of_int (fee_amount1 unclaimedFees)))
                 | None \<Rightarrow> Inr (amount0, amount1, Fin 0, Fin 0))))"

section \<open>Pool price\<close>

text \<open>\<^verbatim>\<open>getTokenPriceFromPool\<close> (lines 137--168).\<close>

definition getTokenPriceFromPool :: "pool_contract \<Rightarrow> error + (number \<times> nat \<times> nat)" where
  "getTokenPriceFromPool poolContract =
     (case pool_decimals0 poolContract of
        None \<Rightarrow> Inl DecimalsRejected
      | Some decimals0 \<Rightarrow>
         (case pool_decimals1 poolContract of
            None \<Rightarrow> Inl DecimalsRejected
          | Some decimals1 \<Rightarrow>
             (case pool_slot0 poolContract of
                None \<Rightarrow> Inl Slot0Rejected
              | Some s \<Rightarrow>
                 (let sqrtPrice = decodeSqrtPrice (slot0_sqrtPriceX96 s);
                      price = n_mul sqrtPrice sqrtPrice;
                      actualPrice = adjustForDecimals price decimals0 decimals1
                  in Inr (actualPrice, decimals0, decimals1)))))"

section \<open>Valuation\<close>

text \<open>\<^verbatim>\<open>calculatePositionValue\<close> (lines 61--70).\<close>

definition calculatePositionValue :: "number \<Rightarrow> number \<Rightarrow> number \<Rightarrow> number \<Rightarrow> number" where
  "calculatePositionValue liquidity currentPrice tokenXPriceUsd tokenYPriceUsd =
     (let amountX = n_div liquidity (n_sqrt currentPrice);
          amountY = n_mul liquidity (n_sqrt currentPrice)
      in n_add (n_mul amountX tokenXPriceUsd) (n_mul amountY tokenYPriceUsd))"

text \<open>The instance: the provider's URL, the API key and the two public mutable fields of
  the display price window (lines 16--19).\<close>

record V3LpValue =
  rpcUrl :: string
  apiKey :: string
  priceLower :: number
  priceUpper :: number

text \<open>The constructor (lines 33--36), with the field initialisers of lines 18--19.\<close>

definition new_V3LpValue :: "string \<Rightarrow> string \<Rightarrow> V3LpValue" where
  "new_V3LpValue url key =
     \<lparr>rpcUrl = url, apiKey = key, priceLower = Fin 0, priceUpper = Fin 999999999999\<rparr>"

record PositionValue =
  blockNumber :: nat
  tokenPrice :: number
  tokenXPrice :: number
  tokenYPrice :: number
  positionValue :: number
  unclaimedFees :: number
  totalValue :: number

text \<open>The USD price of a token: the price of the override pool when its address is given
  (\<open>Some\<close>), the default otherwise (lines 237--251).\<close>

definition usdPrice :: "pool_contract option \<Rightarrow> number \<Rightarrow> error + number" where
  "usdPrice poolU dflt =
     (case poolU of
        None \<Rightarrow> Inr dflt
      | Some c \<Rightarrow> (case getTokenPriceFromPool c of Inl e \<Rightarrow> Inl e | Inr (pr, d0, d1) \<Rightarrow> Inr pr))"

text \<open>\<^verbatim>\<open>blockNumber || await this.provider.getBlockNumber()\<close> (line 275): \<open>latest\<close> is
  the provider's answer.\<close>

definition resolveBlock :: "nat option \<Rightarrow> nat option \<Rightarrow> error + nat" where
  "resolveBlock blockNumberArg latest =
     (case blockNumberArg of
        Some n \<Rightarrow> (if n \<noteq> 0 then Inr n
                   else (case latest of None \<Rightarrow> Inl BlockNumberRejected | Some b \<Rightarrow> Inr b))
      | None \<Rightarrow> (case latest of None \<Rightarrow> Inl BlockNumberRejected | Some b \<Rightarrow> Inr b))"

text \<open>\<^verbatim>\<open>calculateLpValue\<close> (lines 199--286). \<open>poolXU\<close> and \<open>poolYU\<close> are \<open>None\<close>
  for an empty override address; the locals \<^verbatim>\<open>tokenPrice\<close> and
  \<^verbatim>\<open>positionValue\<close> carry a prime, their names being fields of the result.\<close>

definition calculateLpValue ::
  "V3LpValue \<Rightarrow> nft_contract \<Rightarrow> pool_contract \<Rightarrow> nat option \<Rightarrow> nat option \<Rightarrow>
   pool_contract option \<Rightarrow> pool_contract option \<Rightarrow> error + PositionValue" where
  "calculateLpValue this nftContract poolContract blockNumberArg latest poolXU poolYU =
     (case getPositionAmounts nftContract poolContract of
        Inl e \<Rightarrow> Inl e
      | Inr (amountX, amountY, feeX, feeY) \<Rightarrow>
     (case getTokenPriceFromPool poolContract of
        Inl e \<Rightarrow> Inl e
      | Inr (tokenPrice', decimals0, decimals1) \<Rightarrow>
     (case usdPrice poolXU tokenPrice' of
        Inl e \<Rightarrow> Inl e
      | Inr tokenXUPrice \<Rightarrow>
     (case usdPrice poolYU (Fin 1) of
        Inl e \<Rightarrow> Inl e
      | Inr tokenYUPrice \<Rightarrow>
        (let sqrtPriceCurrent = n_sqrt tokenPrice';
             sqrtPriceLower = n_sqrt (priceLower this);
             sqrtPriceUpper = n_sqrt (priceUpper this);
             liquidity = calculateV3Liquidity
                           (n_div amountX (pow10 decimals0))
                           (n_div amountY (pow10 decimals1))
                           sqrtPriceCurrent sqrtPriceLower sqrtPriceUpper;
             positionValue' = calculatePositionValue liquidity tokenPrice' tokenXUPrice tokenYUPrice;
             feeValue = n_add (n_div (n_mul feeX tokenXUPrice) (pow10 decimals0))
                              (n_div (n_mul feeY tokenYUPrice) (pow10 decimals1))
         in case resolveBlock blockNumberArg latest of
              Inl e \<Rightarrow> Inl e
            | Inr currentBlock \<Rightarrow>
                Inr \<lparr>blockNumber = currentBlock,
                     tokenPrice = tokenPrice',
                     tokenXPrice = tokenXUPrice,
                     tokenYPrice = tokenYUPrice,
                     positionValue = positionValue',
                     unclaimedFees = feeValue,
                     totalValue = n_add positionValue' feeValue\<rparr>)))))"

section \<open>Reads through the provider\<close>

text \<open>
  What a node serves: the answers of the position manager at an address for a position id
  and of a pool at an address, each under the block tag of the call (\<open>None\<close> is the
  latest block), and the current block number (\<open>None\<close> when the request rejects).
\<close>

record chain =
  nft_contract_at :: "string \<Rightarrow> int \<Rightarrow> nat option \<Rightarrow> nft_contract"
  pool_contract_at :: "string \<Rightarrow> nat option \<Rightarrow> pool_contract"
  getBlockNumber :: "nat option"

text \<open>\<^verbatim>\<open>blockTag ? { blockTag } : {}\<close> (lines 79 and 142): no tag for an absent block
  number and for 0.\<close>

definition overrides :: "nat option \<Rightarrow> nat option" where
  "overrides blockTag =
     (case blockTag of None \<Rightarrow> None | Some n \<Rightarrow> (if n = 0 then None else Some n))"

text \<open>The pool of an override address, \<open>None\<close> for the empty address (lines 237 and
  245).\<close>

definition overridePool :: "chain \<Rightarrow> string \<Rightarrow> nat option \<Rightarrow> pool_contract option" where
  "overridePool provider address tag =
     (if address = [] then None else Some (pool_contract_at provider address tag))"

text \<open>\<^verbatim>\<open>calculateLpValue\<close> from its arguments (lines 199--286): the provider of the
  instance is the node behind its URL (line 34), \<open>node\<close> being what each URL serves, and
  the contracts are the addresses read through that provider (lines 221--222, 239 and
  247).\<close>

definition calculateLpValue_at ::
  "(string \<Rightarrow> chain) \<Rightarrow> V3LpValue \<Rightarrow> string \<Rightarrow> string \<Rightarrow> int \<Rightarrow> nat option \<Rightarrow>
   string \<Rightarrow> string \<Rightarrow> error + PositionValue" where
  "calculateLpValue_at node this positionManagerAddress poolAddress positionId blockNumberArg
       poolXUAddress poolYUAddress =
     (let provider = node (rpcUrl this);
          tag = overrides blockNumberArg
      in calculateLpValue this
           (nft_contract_at provider positionManagerAddress positionId tag)
           (pool_contract_at provider poolAddress tag)
           blockNumberArg (getBlockNumber provider)
           (overridePool provider poolXUAddress tag)
           (overridePool provider poolYUAddress tag))"

section \<open>Arithmetic of the number type\<close>

lemma n_mul_one: "n_mul p (Fin 1) = p"
  by (cases p) (simp_all add: inf_of_def)

lemma n_add_zero: "n_add x (Fin 0) = x"
  by (cases x) simp_all

lemma n_sqrt_4: "n_sqrt (Fin 4) = Fin 2"
  using real_sqrt_abs [of 2] by simp

lemma n_sqrt_9: "n_sqrt (Fin 9) = Fin 3"
  using real_sqrt_abs [of 3] by simp

lemma n_mul_div_pow10: "n_div (n_mul p (Fin (10 ^ k))) (Fin (10 ^ k)) = p"
  by (cases p) (simp_all add: inf_of_def)

lemma n_div_mul_pow10: "n_mul (n_div p (Fin (10 ^ k))) (Fin (10 ^ k)) = p"
  by (cases p) (simp_all add: inf_of_def)

lemma decodeSqrtPrice_Fin: "decodeSqrtPrice x = Fin (real_of_int x / 2 ^ 96)"
  by (simp add: decodeSqrtPrice_def)

lemma n_sqrt_16: "n_sqrt (Fin 16) = Fin 4"
  using real_sqrt_abs [of 4] by simp

section \<open>Decimal adjustment\<close>

lemma adjustForDecimals_cases:
  "adjustForDecimals price d0 d1 =
     (if d1 \<le> d0 then n_mul price (Fin (10 ^ (d0 - d1)))
      else n_div price (Fin (10 ^ (d1 - d0))))"
  by (simp add: adjustForDecimals_def Let_def nat_diff_distrib' abs_if del: of_nat_diff)

text \<open>
  Claim C8. The decimal adjustment multiplies the raw price by \<open>10 ^ (decimals0 - decimals1)\<close>
  when \<open>decimals0 \<ge> decimals1\<close> and divides it by \<open>10 ^ (decimals1 - decimals0)\<close>
  otherwise, and for \<open>decimals0 = 18\<close> and \<open>decimals1 = 6\<close> it multiplies the price by
  \<open>10 ^ 12\<close>; the price that \<^verbatim>\<open>getTokenPriceFromPool\<close> returns is this adjustment of
  the raw price, the square of the decoded square-root price.
\<close>

theorem adjustForDecimals_scales:
  "adjustForDecimals price decimals0 decimals1 =
     (if decimals1 \<le> decimals0 then n_mul price (Fin (10 ^ (decimals0 - decimals1)))
      else n_div price (Fin (10 ^ (decimals1 - decimals0))))
   \<and> adjustForDecimals price 18 6 = n_mul price (Fin (10 ^ 12))
   \<and> (pool_slot0 pool = Some s \<and> pool_decimals0 pool = Some d0 \<and> pool_decimals1 pool = Some d1 \<longrightarrow>
        getTokenPriceFromPool pool =
          Inr (if d1 \<le> d0
               then n_mul (n_mul (decodeSqrtPrice (slot0_sqrtPriceX96 s))
                                 (decodeSqrtPrice (slot0_sqrtPriceX96 s)))
                          (Fin (10 ^ (d0 - d1)))
               else n_div (n_mul (decodeSqrtPrice (slot0_sqrtPriceX96 s))
                                 (decodeSqrtPrice (slot0_sqrtPriceX96 s)))
                          (Fin (10 ^ (d1 - d0))),
               d0, d1))
   \<and> (pool_slot0 pool = Some s \<and> pool_decimals0 pool = Some 18 \<and> pool_decimals1 pool = Some 6 \<longrightarrow>
        getTokenPriceFromPool pool =
          Inr (n_mul (n_mul (decodeSqrtPrice (slot0_sqrtPriceX96 s))
                            (decodeSqrtPrice (slot0_sqrtPriceX96 s)))
                     (Fin (10 ^ 12)),
               18, 6))"
  by (simp add: adjustForDecimals_cases getTokenPriceFromPool_def Let_def)

text \<open>The theorem at the price 3/2, and at a pool of square-root price 2 (raw price 4)
  whose tokens have 18 and 6 decimals (the price returned is \<open>4 * 10 ^ 12\<close>) and 6 and 18
  decimals (the price returned is \<open>4 / 10 ^ 12\<close>).\<close>

theorem adjustForDecimals_scales_witness:
  "adjustForDecimals (Fin (3 / 2)) 18 6 = Fin 1500000000000
   \<and> adjustForDecimals (Fin (3 / 2)) 6 18 = Fin (3 / 2000000000000)
   \<and> pool_slot0 \<lparr>pool_slot0 = Some \<lparr>slot0_sqrtPriceX96 = 158456325028528675187087900672,
                                      slot0_tick = 13863\<rparr>,
                  pool_decimals0 = Some 18, pool_decimals1 = Some 6\<rparr>
       = Some \<lparr>slot0_sqrtPriceX96 = 158456325028528675187087900672, slot0_tick = 13863\<rparr>
   \<and> getTokenPriceFromPool
        \<lparr>pool_slot0 = Some \<lparr>slot0_sqrtPriceX96 = 158456325028528675187087900672,
                              slot0_tick = 13863\<rparr>,
         pool_decimals0 = Some 18, pool_decimals1 = Some 6\<rparr>
       = Inr (Fin 4000000000000, 18, 6)
   \<and> getTokenPriceFromPool
        \<lparr>pool_slot0 = Some \<lparr>slot0_sqrtPriceX96 = 158456325028528675187087900672,
                              slot0_tick = 13863\<rparr>,
         pool_decimals0 = Some 6, pool_decimals1 = Some 18\<rparr>
       = Inr (Fin (4 / 1000000000000), 6, 18)"
  using adjustForDecimals_scales [of "Fin (3 / 2)" 18 6
          "\<lparr>pool_slot0 = Some \<lparr>slot0_sqrtPriceX96 = 158456325028528675187087900672,
                                slot0_tick = 13863\<rparr>,
            pool_decimals0 = Some 18, pool_decimals1 = Some 6\<rparr>"
          "\<lparr>slot0_sqrtPriceX96 = 158456325028528675187087900672, slot0_tick = 13863\<rparr>" 18 6]
        adjustForDecimals_scales [of "Fin (3 / 2)" 6 18
          "\<lparr>pool_slot0 = Some \<lparr>slot0_sqrtPriceX96 = 158456325028528675187087900672,
                                slot0_tick = 13863\<rparr>,
            pool_decimals0 = Some 6, pool_decimals1 = Some 18\<rparr>"
          "\<lparr>slot0_sqrtPriceX96 = 158456325028528675187087900672, slot0_tick = 13863\<rparr>" 6 18]
  by (simp add: decodeSqrtPrice_Fin)

text \<open>
  Claim C7. Decimal adjustment round-trips: for every price \<open>p\<close> (a special value
  included) and all decimals \<open>d0\<close> and \<open>d1\<close>, adjusting \<open>p\<close> with \<open>(d0, d1)\<close> and the
  result with \<open>(d1, d0)\<close> gives \<open>p\<close> back.
\<close>

theorem adjustForDecimals_roundtrip:
  "adjustForDecimals (adjustForDecimals p d0 d1) d1 d0 = p"
proof -
  consider "d1 < d0" | "d0 = d1" | "d0 < d1" by linarith
  then show ?thesis
  proof cases
    case 1
    then show ?thesis
      using n_mul_div_pow10 [of p "d0 - d1"] by (simp add: adjustForDecimals_cases)
  next
    case 2
    then show ?thesis
      using n_mul_one [of p] n_mul_one [of "n_mul p (Fin 1)"]
      by (simp add: adjustForDecimals_cases)
  next
    case 3
    then show ?thesis
      using n_div_mul_pow10 [of p "d1 - d0"] by (simp add: adjustForDecimals_cases)
  qed
qed

section \<open>Divisors of the liquidity computation\<close>

text \<open>
  Claim C9. When \<open>sqrtPriceLower < sqrtPriceUpper\<close>, every division that
  \<^verbatim>\<open>calculateV3Liquidity\<close> performs has a non-zero divisor: the outer branches divide by
  \<open>sqrtPriceUpper - sqrtPriceLower\<close>, the within-range branch divides by
  \<open>sqrtPriceUpper - c\<close> and \<open>c - sqrtPriceLower\<close>, and on finite arguments the result is
  finite. In the zero-width case \<open>sqrtPriceLower = sqrtPriceUpper\<close> the divisor
  \<open>sqrtPriceUpper - sqrtPriceLower\<close> of the branch taken is zero and the result is not a
  finite number.
\<close>

theorem calculateV3Liquidity_divisors_nonzero:
  "(n_lt lo hi \<longrightarrow>
      n_sub hi lo \<noteq> Fin 0
      \<and> (n_le c lo \<longrightarrow>
           calculateV3Liquidity ax ay c lo hi = n_div (n_mul ax (n_mul hi lo)) (n_sub hi lo))
      \<and> (\<not> n_le c lo \<and> n_ge c hi \<longrightarrow>
           calculateV3Liquidity ax ay c lo hi = n_div ay (n_sub hi lo))
      \<and> (\<not> n_le c lo \<and> \<not> n_ge c hi \<longrightarrow>
           calculateV3Liquidity ax ay c lo hi =
             n_min (n_div (n_mul ax (n_mul hi c)) (n_sub hi c)) (n_div ay (n_sub c lo))
           \<and> n_sub hi c \<noteq> Fin 0 \<and> n_sub c lo \<noteq> Fin 0))
   \<and> (l < h \<longrightarrow>
      calculateV3Liquidity (Fin x) (Fin y) (Fin k) (Fin l) (Fin h) =
        Fin (if k \<le> l then x * (h * l) / (h - l)
             else if h \<le> k then y / (h - l)
             else min (x * (h * k) / (h - k)) (y / (k - l))))
   \<and> n_sub (Fin w) (Fin w) = Fin 0
   \<and> calculateV3Liquidity (Fin x) (Fin y) (Fin k) (Fin w) (Fin w) =
        (if k \<le> w then n_div (Fin (x * (w * w))) (Fin 0) else n_div (Fin y) (Fin 0))
   \<and> calculateV3Liquidity (Fin x) (Fin y) (Fin k) (Fin w) (Fin w) \<noteq> Fin r"
proof (intro conjI impI)
  assume "n_lt lo hi"
  then show "n_sub hi lo \<noteq> Fin 0"
    by (cases lo; cases hi) (auto simp: n_sub_def)
next
  assume "n_le c lo"
  then show "calculateV3Liquidity ax ay c lo hi = n_div (n_mul ax (n_mul hi lo)) (n_sub hi lo)"
    by (simp add: calculateV3Liquidity_def)
next
  assume "\<not> n_le c lo \<and> n_ge c hi"
  then show "calculateV3Liquidity ax ay c lo hi = n_div ay (n_sub hi lo)"
    by (simp add: calculateV3Liquidity_def)
next
  assume "\<not> n_le c lo \<and> \<not> n_ge c hi"
  then show "calculateV3Liquidity ax ay c lo hi =
             n_min (n_div (n_mul ax (n_mul hi c)) (n_sub hi c)) (n_div ay (n_sub c lo))"
    by (simp add: calculateV3Liquidity_def)
next
  assume "\<not> n_le c lo \<and> \<not> n_ge c hi"
  then show "n_sub hi c \<noteq> Fin 0"
    by (cases c; cases hi) (auto simp: n_sub_def n_ge_def)
next
  assume "\<not> n_le c lo \<and> \<not> n_ge c hi"
  then show "n_sub c lo \<noteq> Fin 0"
    by (cases c; cases lo) (auto simp: n_sub_def)
next
  assume "l < h"
  then show "calculateV3Liquidity (Fin x) (Fin y) (Fin k) (Fin l) (Fin h) =
        Fin (if k \<le> l then x * (h * l) / (h - l)
             else if h \<le> k then y / (h - l)
             else min (x * (h * k) / (h - k)) (y / (k - l)))"
    by (auto simp: calculateV3Liquidity_def n_sub_def n_ge_def min_def)
next
  show "n_sub (Fin w) (Fin w) = Fin 0"
    by (simp add: n_sub_def)
next
  show "calculateV3Liquidity (Fin x) (Fin y) (Fin k) (Fin w) (Fin w) =
        (if k \<le> w then n_div (Fin (x * (w * w))) (Fin 0) else n_div (Fin y) (Fin 0))"
    by (auto simp: calculateV3Liquidity_def n_sub_def n_ge_def)
next
  show "calculateV3Liquidity (Fin x) (Fin y) (Fin k) (Fin w) (Fin w) \<noteq> Fin r"
    by (auto simp: calculateV3Liquidity_def n_sub_def n_ge_def inf_of_def)
qed


text \<open>The theorem at the window of square-root prices 2 and 3 with one unit of each token,
  at the current square-root prices 1 (below), 4 (above) and 5/2 (within, where the
  divisors are 1/2 and 1/2), and at the zero-width window 2 and 2 (the result is
  \<^verbatim>\<open>Infinity\<close>).\<close>

theorem calculateV3Liquidity_divisors_nonzero_witness:
  "n_lt (Fin 2) (Fin 3) \<and> n_sub (Fin 3) (Fin 2) = Fin 1
   \<and> n_le (Fin 1) (Fin 2)
   \<and> calculateV3Liquidity (Fin 1) (Fin 1) (Fin 1) (Fin 2) (Fin 3) = Fin 6
   \<and> \<not> n_le (Fin 4) (Fin 2) \<and> n_ge (Fin 4) (Fin 3)
   \<and> calculateV3Liquidity (Fin 1) (Fin 1) (Fin 4) (Fin 2) (Fin 3) = Fin 1
   \<and> \<not> n_le (Fin (5 / 2)) (Fin 2) \<and> \<not> n_ge (Fin (5 / 2)) (Fin 3)
   \<and> n_sub (Fin 3) (Fin (5 / 2)) = Fin (1 / 2) \<and> n_sub (Fin (5 / 2)) (Fin 2) = Fin (1 / 2)
   \<and> calculateV3Liquidity (Fin 1) (Fin 1) (Fin (5 / 2)) (Fin 2) (Fin 3) = Fin 2
   \<and> n_sub (Fin 2) (Fin 2) = Fin 0
   \<and> calculateV3Liquidity (Fin 1) (Fin 1) (Fin 1) (Fin 2) (Fin 2) = PosInf"
  using calculateV3Liquidity_divisors_nonzero
          [where lo = "Fin 2" and hi = "Fin 3" and c = "Fin 1" and ax = "Fin 1" and ay = "Fin 1"
             and l = 2 and h = 3 and x = 1 and y = 1 and k = 1 and w = 2 and r = 0]
        calculateV3Liquidity_divisors_nonzero
          [where lo = "Fin 2" and hi = "Fin 3" and c = "Fin 4" and ax = "Fin 1" and ay = "Fin 1"
             and l = 2 and h = 3 and x = 1 and y = 1 and k = 4 and w = 2 and r = 0]
        calculateV3Liquidity_divisors_nonzero
          [where lo = "Fin 2" and hi = "Fin 3" and c = "Fin (5 / 2)" and ax = "Fin 1"
             and ay = "Fin 1" and l = 2 and h = 3 and x = 1 and y = 1 and k = "5 / 2"
             and w = 2 and r = 0]
  by (simp add: n_sub_def n_ge_def inf_of_def)

section \<open>Prices are finite\<close>

lemma sqrtPriceFromTick_0: "sqrtPriceFromTick 0 = Fin 1"
  by (simp add: sqrtPriceFromTick_def)

lemma sqrtPriceFromTick_2: "sqrtPriceFromTick 2 = Fin (10001 / 10000)"
  by (simp add: sqrtPriceFromTick_def)

lemma sqrtPriceFromTick_m2: "sqrtPriceFromTick (- 2) = Fin (10000 / 10001)"
  by (simp add: sqrtPriceFromTick_def powr_minus)

lemma getTokenPriceFromPool_finite:
  "getTokenPriceFromPool c = Inr (p, d0, d1) \<Longrightarrow> \<exists>v. p = Fin v"
  by (auto simp: getTokenPriceFromPool_def decodeSqrtPrice_Fin adjustForDecimals_cases Let_def
           split: option.splits if_splits)

lemma usdPrice_finite: "usdPrice u (Fin d) = Inr x \<Longrightarrow> \<exists>v. x = Fin v"
  by (auto simp: usdPrice_def split: option.splits sum.splits dest: getTokenPriceFromPool_finite)

section \<open>A worked valuation\<close>

text \<open>
  A position of liquidity \<open>10001 * 10 ^ 18\<close> between the ticks \<open>-2\<close> and \<open>2\<close>, in a pool
  of two 18-decimal tokens at the square-root price 1 (tick 0), with \<open>3 * 10 ^ 18\<close> and
  \<open>5 * 10 ^ 18\<close> of uncollected fees, at block 100, without override pools.
\<close>

lemma example_positionAmounts:
  "positionAmounts
     \<lparr>pos_liquidity = 10001000000000000000000, pos_tickLower = - 2, pos_tickUpper = 2\<rparr>
     \<lparr>slot0_sqrtPriceX96 = 79228162514264337593543950336, slot0_tick = 0\<rparr>
   = (Fin 1000000000000000000, Fin 1000000000000000000)"
  by (simp add: positionAmounts_def positionBranch_def sqrtPriceFromTick_2 sqrtPriceFromTick_m2
        decodeSqrtPrice_Fin pow_m1_def n_sub_def Let_def)

lemma example_getTokenPriceFromPool:
  "getTokenPriceFromPool
     \<lparr>pool_slot0 = Some \<lparr>slot0_sqrtPriceX96 = 79228162514264337593543950336, slot0_tick = 0\<rparr>,
      pool_decimals0 = Some 18, pool_decimals1 = Some 18\<rparr>
   = Inr (Fin 1, 18, 18)"
  by (simp add: getTokenPriceFromPool_def decodeSqrtPrice_Fin adjustForDecimals_cases Let_def)

lemma example_getPositionAmounts:
  "getPositionAmounts
     \<lparr>positions = Some \<lparr>pos_liquidity = 10001000000000000000000,
                          pos_tickLower = - 2, pos_tickUpper = 2\<rparr>,
      collect_staticCall = Some \<lparr>fee_amount0 = 3000000000000000000,
                                   fee_amount1 = 5000000000000000000\<rparr>\<rparr>
     \<lparr>pool_slot0 = Some \<lparr>slot0_sqrtPriceX96 = 79228162514264337593543950336, slot0_tick = 0\<rparr>,
      pool_decimals0 = Some 18, pool_decimals1 = Some 18\<rparr>
   = Inr (Fin 1000000000000000000, Fin 1000000000000000000,
          Fin 3000000000000000000, Fin 5000000000000000000)"
  by (simp add: getPositionAmounts_def example_positionAmounts)

text \<open>With the display window \<open>(4, 9)\<close> the pool price 1 lies below the window: the
  display liquidity is \<open>1 * (3 * 2) / (3 - 2) = 6\<close>.\<close>

lemma example_valuation_window_4_9:
  "calculateLpValue \<lparr>rpcUrl = u, apiKey = k, priceLower = Fin 4, priceUpper = Fin 9\<rparr>
     \<lparr>positions = Some \<lparr>pos_liquidity = 10001000000000000000000,
                          pos_tickLower = - 2, pos_tickUpper = 2\<rparr>,
      collect_staticCall = Some \<lparr>fee_amount0 = 3000000000000000000,
                                   fee_amount1 = 5000000000000000000\<rparr>\<rparr>
     \<lparr>pool_slot0 = Some \<lparr>slot0_sqrtPriceX96 = 79228162514264337593543950336, slot0_tick = 0\<rparr>,
      pool_decimals0 = Some 18, pool_decimals1 = Some 18\<rparr>
     (Some 100) None None None
   = Inr \<lparr>blockNumber = 100, tokenPrice = Fin 1, tokenXPrice = Fin 1, tokenYPrice = Fin 1,
          positionValue = Fin 12, unclaimedFees = Fin 8, totalValue = Fin 20\<rparr>"
  by (simp add: calculateLpValue_def example_getPositionAmounts example_getTokenPriceFromPool
        usdPrice_def n_sqrt_4 n_sqrt_9 calculateV3Liquidity_def calculatePositionValue_def
        pow10_def resolveBlock_def n_sub_def n_ge_def Let_def)

text \<open>With the window of a fresh instance, \<open>(0, 999999999999)\<close>, the price lies within:
  the display liquidity is the smaller of \<open>h / (h - 1)\<close>, for \<open>h\<close> the square root of
  999999999999, and \<open>1 / (1 - 0) = 1\<close>.\<close>

lemma example_valuation_fresh_instance:
  "calculateLpValue (new_V3LpValue u k)
     \<lparr>positions = Some \<lparr>pos_liquidity = 10001000000000000000000,
                          pos_tickLower = - 2, pos_tickUpper = 2\<rparr>,
      collect_staticCall = Some \<lparr>fee_amount0 = 3000000000000000000,
                                   fee_amount1 = 5000000000000000000\<rparr>\<rparr>
     \<lparr>pool_slot0 = Some \<lparr>slot0_sqrtPriceX96 = 79228162514264337593543950336, slot0_tick = 0\<rparr>,
      pool_decimals0 = Some 18, pool_decimals1 = Some 18\<rparr>
     (Some 100) None None None
   = Inr \<lparr>blockNumber = 100, tokenPrice = Fin 1, tokenXPrice = Fin 1, tokenYPrice = Fin 1,
          positionValue = Fin 2, unclaimedFees = Fin 8, totalValue = Fin 10\<rparr>"
proof -
  have "1 < sqrt 999999999999" by simp
  then show ?thesis
    by (simp add: calculateLpValue_def example_getPositionAmounts example_getTokenPriceFromPool
          usdPrice_def new_V3LpValue_def calculateV3Liquidity_def calculatePositionValue_def
          pow10_def resolveBlock_def n_sub_def n_ge_def Let_def field_simps)
qed

text \<open>The same at block 100 whatever the provider reports, and with the window
  \<open>(9, 16)\<close> at the latest block, which the provider reports as 7: the display liquidity is
  \<open>1 * (4 * 3) / (4 - 3) = 12\<close>.\<close>

lemma example_valuation_at_block_100:
  "calculateLpValue \<lparr>rpcUrl = u, apiKey = k, priceLower = Fin 4, priceUpper = Fin 9\<rparr>
     \<lparr>positions = Some \<lparr>pos_liquidity = 10001000000000000000000,
                          pos_tickLower = - 2, pos_tickUpper = 2\<rparr>,
      collect_staticCall = Some \<lparr>fee_amount0 = 3000000000000000000,
                                   fee_amount1 = 5000000000000000000\<rparr>\<rparr>
     \<lparr>pool_slot0 = Some \<lparr>slot0_sqrtPriceX96 = 79228162514264337593543950336, slot0_tick = 0\<rparr>,
      pool_decimals0 = Some 18, pool_decimals1 = Some 18\<rparr>
     (Some 100) latest None None
   = Inr \<lparr>blockNumber = 100, tokenPrice = Fin 1, tokenXPrice = Fin 1, tokenYPrice = Fin 1,
          positionValue = Fin 12, unclaimedFees = Fin 8, totalValue = Fin 20\<rparr>"
  by (simp add: calculateLpValue_def example_getPositionAmounts example_getTokenPriceFromPool
        usdPrice_def n_sqrt_4 n_sqrt_9 calculateV3Liquidity_def calculatePositionValue_def
        pow10_def resolveBlock_def n_sub_def n_ge_def Let_def)

lemma example_valuation_window_9_16:
  "calculateLpValue \<lparr>rpcUrl = u, apiKey = k, priceLower = Fin 9, priceUpper = Fin 16\<rparr>
     \<lparr>positions = Some \<lparr>pos_liquidity = 10001000000000000000000,
                          pos_tickLower = - 2, pos_tickUpper = 2\<rparr>,
      collect_staticCall = Some \<lparr>fee_amount0 = 3000000000000000000,
                                   fee_amount1 = 5000000000000000000\<rparr>\<rparr>
     \<lparr>pool_slot0 = Some \<lparr>slot0_sqrtPriceX96 = 79228162514264337593543950336, slot0_tick = 0\<rparr>,
      pool_decimals0 = Some 18, pool_decimals1 = Some 18\<rparr>
     None (Some 7) None None
   = Inr \<lparr>blockNumber = 7, tokenPrice = Fin 1, tokenXPrice = Fin 1, tokenYPrice = Fin 1,
          positionValue = Fin 24, unclaimedFees = Fin 8, totalValue = Fin 32\<rparr>"
  by (simp add: calculateLpValue_def example_getPositionAmounts example_getTokenPriceFromPool
        usdPrice_def n_sqrt_9 n_sqrt_16 calculateV3Liquidity_def calculatePositionValue_def
        pow10_def resolveBlock_def n_sub_def n_ge_def Let_def)

section \<open>Fee simulation failure\<close>

lemma getPositionAmounts_no_fees:
  "getPositionAmounts nft pool = Inr (a0, a1, f0, f1) \<Longrightarrow>
   getPositionAmounts (nft\<lparr>collect_staticCall := None\<rparr>) pool = Inr (a0, a1, Fin 0, Fin 0)"
  by (auto simp: getPositionAmounts_def split: option.splits prod.splits)

text \<open>
  Claim C5. If the fee-collection simulation rejects, the valuation does not fail: whenever
  the valuation with an answer of the simulation returns a result \<open>r\<close>, the valuation
  with the same reads and a rejected simulation returns \<open>r\<close> with \<open>unclaimedFees\<close> 0 and
  \<open>totalValue\<close> equal to the position value; the position value and every other field
  are those of \<open>r\<close>.
\<close>

theorem fee_simulation_failure_degrades:
  assumes "calculateLpValue this nft pool bn latest xu yu = Inr r"
  shows "calculateLpValue this (nft\<lparr>collect_staticCall := None\<rparr>) pool bn latest xu yu
         = Inr (r\<lparr>unclaimedFees := Fin 0, totalValue := positionValue r\<rparr>)"
proof -
  from assms obtain a0 a1 f0 f1 where ga: "getPositionAmounts nft pool = Inr (a0, a1, f0, f1)"
    by (auto simp: calculateLpValue_def split: sum.splits)
  from assms ga obtain p d0 d1 where gp: "getTokenPriceFromPool pool = Inr (p, d0, d1)"
    by (auto simp: calculateLpValue_def split: sum.splits)
  from gp obtain pv where p: "p = Fin pv"
    using getTokenPriceFromPool_finite by blast
  from assms ga gp obtain x where ux: "usdPrice xu p = Inr x"
    by (auto simp: calculateLpValue_def split: sum.splits)
  from assms ga gp ux obtain y where uy: "usdPrice yu (Fin 1) = Inr y"
    by (auto simp: calculateLpValue_def split: sum.splits)
  from ux p obtain xv where ux': "usdPrice xu p = Inr (Fin xv)"
    using usdPrice_finite by blast
  from uy obtain yv where uy': "usdPrice yu (Fin 1) = Inr (Fin yv)"
    using usdPrice_finite by blast
  from assms ga gp ux uy obtain b where rb: "resolveBlock bn latest = Inr b"
    by (auto simp: calculateLpValue_def Let_def split: sum.splits)
  note ga' = getPositionAmounts_no_fees [OF ga]
  from assms show ?thesis
    by (auto simp: calculateLpValue_def ga ga' gp ux' uy' rb Let_def pow10_def n_add_zero)
qed

text \<open>The theorem at the worked valuation with the window \<open>(4, 9)\<close>: with the
  simulation rejected the fees are 0 and the total is the position value 12.\<close>

theorem fee_simulation_failure_degrades_witness:
  "calculateLpValue \<lparr>rpcUrl = ''rpc'', apiKey = ''key'', priceLower = Fin 4, priceUpper = Fin 9\<rparr>
     \<lparr>positions = Some \<lparr>pos_liquidity = 10001000000000000000000,
                          pos_tickLower = - 2, pos_tickUpper = 2\<rparr>,
      collect_staticCall = Some \<lparr>fee_amount0 = 3000000000000000000,
                                   fee_amount1 = 5000000000000000000\<rparr>\<rparr>
     \<lparr>pool_slot0 = Some \<lparr>slot0_sqrtPriceX96 = 79228162514264337593543950336, slot0_tick = 0\<rparr>,
      pool_decimals0 = Some 18, pool_decimals1 = Some 18\<rparr>
     (Some 100) None None None
   = Inr \<lparr>blockNumber = 100, tokenPrice = Fin 1, tokenXPrice = Fin 1, tokenYPrice = Fin 1,
          positionValue = Fin 12, unclaimedFees = Fin 8, totalValue = Fin 20\<rparr>
   \<and> calculateLpValue \<lparr>rpcUrl = ''rpc'', apiKey = ''key'', priceLower = Fin 4, priceUpper = Fin 9\<rparr>
     \<lparr>positions = Some \<lparr>pos_liquidity = 10001000000000000000000,
                          pos_tickLower = - 2, pos_tickUpper = 2\<rparr>,
      collect_staticCall = None\<rparr>
     \<lparr>pool_slot0 = Some \<lparr>slot0_sqrtPriceX96 = 79228162514264337593543950336, slot0_tick = 0\<rparr>,
      pool_decimals0 = Some 18, pool_decimals1 = Some 18\<rparr>
     (Some 100) None None None
   = Inr \<lparr>blockNumber = 100, tokenPrice = Fin 1, tokenXPrice = Fin 1, tokenYPrice = Fin 1,
          positionValue = Fin 12, unclaimedFees = Fin 0, totalValue = Fin 12\<rparr>"
  using fee_simulation_failure_degrades
          [OF example_valuation_window_4_9 [of "''rpc''" "''key''"]]
        example_valuation_window_4_9 [of "''rpc''" "''key''"]
  by simp

section \<open>The position value\<close>

text \<open>
  Claim C10. Whenever the reads succeed, the valuation returns a result whose pool price and
  token prices are the price of the pool and the two USD prices, and whose position value is
  computed from the display liquidity by the full-range formulas
  \<open>amountX = liquidity / sqrt currentPrice\<close> and \<open>amountY = liquidity * sqrt currentPrice\<close>,
  each leg multiplied by its USD price, whatever the display window
  \<open>(priceLower, priceUpper)\<close> of the instance is and in whichever branch the display
  liquidity was computed.
\<close>

theorem positionValue_full_range_formula:
  assumes "getPositionAmounts nft pool = Inr (amountX, amountY, feeX, feeY)"
    and "getTokenPriceFromPool pool = Inr (p, decimals0, decimals1)"
    and "usdPrice xu p = Inr x"
    and "usdPrice yu (Fin 1) = Inr y"
    and "resolveBlock bn latest = Inr b"
  shows "\<exists>r. calculateLpValue this nft pool bn latest xu yu = Inr r
           \<and> tokenPrice r = p \<and> tokenXPrice r = x \<and> tokenYPrice r = y
           \<and> positionValue r =
               (let liquidity = calculateV3Liquidity (n_div amountX (pow10 decimals0))
                                  (n_div amountY (pow10 decimals1))
                                  (n_sqrt p) (n_sqrt (priceLower this)) (n_sqrt (priceUpper this))
                in n_add (n_mul (n_div liquidity (n_sqrt p)) x)
                         (n_mul (n_mul liquidity (n_sqrt p)) y))"
  using assms
  by (simp add: calculateLpValue_def calculatePositionValue_def Let_def)

text \<open>The theorem at the worked valuation with the window \<open>(4, 9)\<close>, above the pool
  price 1: the display liquidity is \<open>1 * (3 * 2) / (3 - 2) = 6\<close>, and both legs are valued,
  \<open>6 / 1 * 1\<close> and \<open>6 * 1 * 1\<close>.\<close>

theorem positionValue_full_range_formula_witness:
  "(\<exists>amountY. getPositionAmounts
       \<lparr>positions = Some \<lparr>pos_liquidity = 10001000000000000000000,
                            pos_tickLower = - 2, pos_tickUpper = 2\<rparr>,
        collect_staticCall = Some \<lparr>fee_amount0 = 3000000000000000000,
                                     fee_amount1 = 5000000000000000000\<rparr>\<rparr>
       \<lparr>pool_slot0 = Some \<lparr>slot0_sqrtPriceX96 = 79228162514264337593543950336, slot0_tick = 0\<rparr>,
        pool_decimals0 = Some 18, pool_decimals1 = Some 18\<rparr>
     = Inr (Fin 1000000000000000000, amountY,
            Fin 3000000000000000000, Fin 5000000000000000000))
   \<and> getTokenPriceFromPool
       \<lparr>pool_slot0 = Some \<lparr>slot0_sqrtPriceX96 = 79228162514264337593543950336, slot0_tick = 0\<rparr>,
        pool_decimals0 = Some 18, pool_decimals1 = Some 18\<rparr>
     = Inr (Fin 1, 18, 18)
   \<and> usdPrice None (Fin 1) = Inr (Fin 1)
   \<and> resolveBlock (Some 100) None = Inr 100
   \<and> (\<exists>r. calculateLpValue
            \<lparr>rpcUrl = ''rpc'', apiKey = ''key'', priceLower = Fin 4, priceUpper = Fin 9\<rparr>
            \<lparr>positions = Some \<lparr>pos_liquidity = 10001000000000000000000,
                                 pos_tickLower = - 2, pos_tickUpper = 2\<rparr>,
             collect_staticCall = Some \<lparr>fee_amount0 = 3000000000000000000,
                                          fee_amount1 = 5000000000000000000\<rparr>\<rparr>
            \<lparr>pool_slot0 = Some \<lparr>slot0_sqrtPriceX96 = 79228162514264337593543950336,
                                  slot0_tick = 0\<rparr>,
             pool_decimals0 = Some 18, pool_decimals1 = Some 18\<rparr>
            (Some 100) None None None = Inr r
          \<and> tokenPrice r = Fin 1 \<and> tokenXPrice r = Fin 1 \<and> tokenYPrice r = Fin 1
          \<and> positionValue r = n_add (n_mul (n_div (Fin 6) (Fin 1)) (Fin 1))
                                     (n_mul (n_mul (Fin 6) (Fin 1)) (Fin 1))
          \<and> positionValue r = Fin 12)"
proof -
  have u: "usdPrice None (Fin 1) = Inr (Fin 1)" by (simp add: usdPrice_def)
  have b: "resolveBlock (Some 100) None = Inr 100" by (simp add: resolveBlock_def)
  from positionValue_full_range_formula
         [OF example_getPositionAmounts example_getTokenPriceFromPool u u b,
          of "\<lparr>rpcUrl = ''rpc'', apiKey = ''key'', priceLower = Fin 4, priceUpper = Fin 9\<rparr>"]
  show ?thesis
    using example_getPositionAmounts example_getTokenPriceFromPool u b
    by (simp add: calculateV3Liquidity_def n_sqrt_4 n_sqrt_9 pow10_def n_sub_def)
qed

section \<open>What the valuation depends on\<close>

text \<open>
  Claim C3, as stated, fails: two runs on the same position, pool state, decimals, fees,
  USD prices and block, one on a fresh instance and one after the assignment of the two
  public fields (lines 302--303), return different position values and totals.
\<close>

theorem valuation_window_counterexample:
  "calculateLpValue (new_V3LpValue ''rpc'' ''key'')
     \<lparr>positions = Some \<lparr>pos_liquidity = 10001000000000000000000,
                          pos_tickLower = - 2, pos_tickUpper = 2\<rparr>,
      collect_staticCall = Some \<lparr>fee_amount0 = 3000000000000000000,
                                   fee_amount1 = 5000000000000000000\<rparr>\<rparr>
     \<lparr>pool_slot0 = Some \<lparr>slot0_sqrtPriceX96 = 79228162514264337593543950336, slot0_tick = 0\<rparr>,
      pool_decimals0 = Some 18, pool_decimals1 = Some 18\<rparr>
     (Some 100) None None None
   = Inr \<lparr>blockNumber = 100, tokenPrice = Fin 1, tokenXPrice = Fin 1, tokenYPrice = Fin 1,
          positionValue = Fin 2, unclaimedFees = Fin 8, totalValue = Fin 10\<rparr>
   \<and> calculateLpValue ((new_V3LpValue ''rpc'' ''key'')\<lparr>priceLower := Fin 4, priceUpper := Fin 9\<rparr>)
     \<lparr>positions = Some \<lparr>pos_liquidity = 10001000000000000000000,
                          pos_tickLower = - 2, pos_tickUpper = 2\<rparr>,
      collect_staticCall = Some \<lparr>fee_amount0 = 3000000000000000000,
                                   fee_amount1 = 5000000000000000000\<rparr>\<rparr>
     \<lparr>pool_slot0 = Some \<lparr>slot0_sqrtPriceX96 = 79228162514264337593543950336, slot0_tick = 0\<rparr>,
      pool_decimals0 = Some 18, pool_decimals1 = Some 18\<rparr>
     (Some 100) None None None
   = Inr \<lparr>blockNumber = 100, tokenPrice = Fin 1, tokenXPrice = Fin 1, tokenYPrice = Fin 1,
          positionValue = Fin 12, unclaimedFees = Fin 8, totalValue = Fin 20\<rparr>"
  using example_valuation_fresh_instance [of "''rpc''" "''key''"]
        example_valuation_window_4_9 [of "''rpc''" "''key''"]
  by (simp add: new_V3LpValue_def)

lemma calculateLpValue_window_block:
  assumes "priceLower this = priceLower this'" and "priceUpper this = priceUpper this'"
    and "resolveBlock bn latest = resolveBlock bn latest'"
  shows "calculateLpValue this nft pool bn latest xu yu
       = calculateLpValue this' nft pool bn latest' xu yu"
  unfolding calculateLpValue_def assms by (rule refl)

lemma resolveBlock_given: "n \<noteq> 0 \<Longrightarrow> resolveBlock (Some n) latest = Inr n"
  by (simp add: resolveBlock_def)

lemma calculateLpValue_fields:
  assumes "calculateLpValue this nft pool bn latest xu yu = Inr r"
    and "calculateLpValue this' nft pool bn' latest' xu yu = Inr r'"
  shows "tokenPrice r = tokenPrice r' \<and> tokenXPrice r = tokenXPrice r'
       \<and> tokenYPrice r = tokenYPrice r' \<and> unclaimedFees r = unclaimedFees r'"
  using assms
  by (auto simp: calculateLpValue_def Let_def split: sum.splits)

text \<open>
  Claim C3, amended. The valuation is a function of the position, the pool state, the
  decimals, the fee accrual, the USD prices and the block number together with the two
  mutable fields \<open>priceLower\<close> and \<open>priceUpper\<close> of the instance. Take two runs, on any
  two instances, nodes, addresses and position ids, whose reads of the position manager, of
  the pool and of the two override pools return the same answers. If the two instances
  agree on \<open>priceLower\<close> and \<open>priceUpper\<close>, and the block number is given and not 0 or the
  two providers report the same current block number, the two runs return the same result.
  Whatever the two windows, the two block number arguments and the providers' current
  block numbers are, two results have the same pool price, token prices and unclaimed fees.
\<close>

theorem valuation_depends_on_reads_and_window:
  assumes "nft_contract_at (node (rpcUrl this)) pm pid (overrides bn)
           = nft_contract_at (node' (rpcUrl this')) pm' pid' (overrides bn')"
    and "pool_contract_at (node (rpcUrl this)) pa (overrides bn)
           = pool_contract_at (node' (rpcUrl this')) pa' (overrides bn')"
    and "overridePool (node (rpcUrl this)) xa (overrides bn)
           = overridePool (node' (rpcUrl this')) xa' (overrides bn')"
    and "overridePool (node (rpcUrl this)) ya (overrides bn)
           = overridePool (node' (rpcUrl this')) ya' (overrides bn')"
  shows "(priceLower this = priceLower this' \<and> priceUpper this = priceUpper this' \<and> bn = bn'
          \<and> ((\<exists>n. bn = Some n \<and> n \<noteq> 0)
               \<or> getBlockNumber (node (rpcUrl this)) = getBlockNumber (node' (rpcUrl this')))
          \<longrightarrow> calculateLpValue_at node this pm pa pid bn xa ya
              = calculateLpValue_at node' this' pm' pa' pid' bn' xa' ya')
       \<and> (calculateLpValue_at node this pm pa pid bn xa ya = Inr r
          \<and> calculateLpValue_at node' this' pm' pa' pid' bn' xa' ya' = Inr r'
          \<longrightarrow> tokenPrice r = tokenPrice r' \<and> tokenXPrice r = tokenXPrice r'
              \<and> tokenYPrice r = tokenYPrice r' \<and> unclaimedFees r = unclaimedFees r')"
proof (rule conjI [OF impI impI])
  assume h: "priceLower this = priceLower this' \<and> priceUpper this = priceUpper this' \<and> bn = bn'
          \<and> ((\<exists>n. bn = Some n \<and> n \<noteq> 0)
               \<or> getBlockNumber (node (rpcUrl this)) = getBlockNumber (node' (rpcUrl this')))"
  then have w1: "priceLower this = priceLower this'"
    and w2: "priceUpper this = priceUpper this'"
    and bb: "bn = bn'"
    by simp_all
  from h bb have rb: "resolveBlock bn' (getBlockNumber (node (rpcUrl this)))
           = resolveBlock bn' (getBlockNumber (node' (rpcUrl this')))"
    by (auto simp: resolveBlock_given)
  show "calculateLpValue_at node this pm pa pid bn xa ya
              = calculateLpValue_at node' this' pm' pa' pid' bn' xa' ya'"
    unfolding calculateLpValue_at_def Let_def assms
    unfolding bb
    by (rule calculateLpValue_window_block [OF w1 w2 rb])
next
  assume "calculateLpValue_at node this pm pa pid bn xa ya = Inr r
          \<and> calculateLpValue_at node' this' pm' pa' pid' bn' xa' ya' = Inr r'"
  then show "tokenPrice r = tokenPrice r' \<and> tokenXPrice r = tokenXPrice r'
              \<and> tokenYPrice r = tokenYPrice r' \<and> unclaimedFees r = unclaimedFees r'"
    unfolding calculateLpValue_at_def Let_def assms
    using calculateLpValue_fields by blast
qed


text \<open>The theorem at the reads of the worked valuation. Two runs at block 100 with the window
  \<open>(4, 9)\<close>, on instances of different URL and API key, behind nodes of which one reports
  the current block 7 and the other rejects the request and serves no other pool, return
  the same result. A third run, at the latest block with the window \<open>(9, 16)\<close>, returns
  another block number, position value and total, and the same prices and fees.\<close>

theorem valuation_depends_on_reads_and_window_witness:
  "calculateLpValue_at
      (\<lambda>url. \<lparr>nft_contract_at = (\<lambda>a i t. \<lparr>positions = Some \<lparr>pos_liquidity = 10001000000000000000000,
                                    pos_tickLower = - 2, pos_tickUpper = 2\<rparr>,
                collect_staticCall = Some \<lparr>fee_amount0 = 3000000000000000000,
                                             fee_amount1 = 5000000000000000000\<rparr>\<rparr>),
              pool_contract_at = (\<lambda>a t. \<lparr>pool_slot0 = Some \<lparr>slot0_sqrtPriceX96 = 79228162514264337593543950336,
                                     slot0_tick = 0\<rparr>,
                pool_decimals0 = Some 18, pool_decimals1 = Some 18\<rparr>),
              getBlockNumber = Some 7\<rparr>)
      \<lparr>rpcUrl = ''url1'', apiKey = ''key1'', priceLower = Fin 4, priceUpper = Fin 9\<rparr> ''nft'' ''pool'' 1 (Some 100) [] []
    = Inr \<lparr>blockNumber = 100, tokenPrice = Fin 1, tokenXPrice = Fin 1, tokenYPrice = Fin 1,
            positionValue = Fin 12, unclaimedFees = Fin 8, totalValue = Fin 20\<rparr>
   \<and> calculateLpValue_at
      (\<lambda>url. \<lparr>nft_contract_at = (\<lambda>a i t. \<lparr>positions = Some \<lparr>pos_liquidity = 10001000000000000000000,
                                    pos_tickLower = - 2, pos_tickUpper = 2\<rparr>,
                collect_staticCall = Some \<lparr>fee_amount0 = 3000000000000000000,
                                             fee_amount1 = 5000000000000000000\<rparr>\<rparr>),
              pool_contract_at = (\<lambda>a t. if a = ''pool'' then \<lparr>pool_slot0 = Some \<lparr>slot0_sqrtPriceX96 = 79228162514264337593543950336,
                                     slot0_tick = 0\<rparr>,
                pool_decimals0 = Some 18, pool_decimals1 = Some 18\<rparr>
                 else \<lparr>pool_slot0 = None, pool_decimals0 = None, pool_decimals1 = None\<rparr>),
              getBlockNumber = None\<rparr>)
      \<lparr>rpcUrl = ''url2'', apiKey = ''key2'', priceLower = Fin 4, priceUpper = Fin 9\<rparr> ''nft'' ''pool'' 1 (Some 100) [] []
    = Inr \<lparr>blockNumber = 100, tokenPrice = Fin 1, tokenXPrice = Fin 1, tokenYPrice = Fin 1,
            positionValue = Fin 12, unclaimedFees = Fin 8, totalValue = Fin 20\<rparr>
   \<and> calculateLpValue_at
      (\<lambda>url. \<lparr>nft_contract_at = (\<lambda>a i t. \<lparr>positions = Some \<lparr>pos_liquidity = 10001000000000000000000,
                                    pos_tickLower = - 2, pos_tickUpper = 2\<rparr>,
                collect_staticCall = Some \<lparr>fee_amount0 = 3000000000000000000,
                                             fee_amount1 = 5000000000000000000\<rparr>\<rparr>),
              pool_contract_at = (\<lambda>a t. \<lparr>pool_slot0 = Some \<lparr>slot0_sqrtPriceX96 = 79228162514264337593543950336,
                                     slot0_tick = 0\<rparr>,
                pool_decimals0 = Some 18, pool_decimals1 = Some 18\<rparr>),
              getBlockNumber = Some 7\<rparr>)
      \<lparr>rpcUrl = ''url1'', apiKey = ''key1'', priceLower = Fin 9, priceUpper = Fin 16\<rparr> ''nft'' ''pool'' 1 None [] []
    = Inr \<lparr>blockNumber = 7, tokenPrice = Fin 1, tokenXPrice = Fin 1, tokenYPrice = Fin 1,
            positionValue = Fin 24, unclaimedFees = Fin 8, totalValue = Fin 32\<rparr>"
proof -
  let ?A = "(\<lambda>url. \<lparr>nft_contract_at = (\<lambda>a i t. \<lparr>positions = Some \<lparr>pos_liquidity = 10001000000000000000000,
                                    pos_tickLower = - 2, pos_tickUpper = 2\<rparr>,
                collect_staticCall = Some \<lparr>fee_amount0 = 3000000000000000000,
                                             fee_amount1 = 5000000000000000000\<rparr>\<rparr>),
              pool_contract_at = (\<lambda>a t. \<lparr>pool_slot0 = Some \<lparr>slot0_sqrtPriceX96 = 79228162514264337593543950336,
                                     slot0_tick = 0\<rparr>,
                pool_decimals0 = Some 18, pool_decimals1 = Some 18\<rparr>),
              getBlockNumber = Some 7\<rparr>)"
  let ?B = "(\<lambda>url. \<lparr>nft_contract_at = (\<lambda>a i t. \<lparr>positions = Some \<lparr>pos_liquidity = 10001000000000000000000,
                                    pos_tickLower = - 2, pos_tickUpper = 2\<rparr>,
                collect_staticCall = Some \<lparr>fee_amount0 = 3000000000000000000,
                                             fee_amount1 = 5000000000000000000\<rparr>\<rparr>),
              pool_contract_at = (\<lambda>a t. if a = ''pool'' then \<lparr>pool_slot0 = Some \<lparr>slot0_sqrtPriceX96 = 79228162514264337593543950336,
                                     slot0_tick = 0\<rparr>,
                pool_decimals0 = Some 18, pool_decimals1 = Some 18\<rparr>
                 else \<lparr>pool_slot0 = None, pool_decimals0 = None, pool_decimals1 = None\<rparr>),
              getBlockNumber = None\<rparr>)"
  let ?t1 = "\<lparr>rpcUrl = ''url1'', apiKey = ''key1'', priceLower = Fin 4, priceUpper = Fin 9\<rparr>"
  let ?t2 = "\<lparr>rpcUrl = ''url2'', apiKey = ''key2'', priceLower = Fin 4, priceUpper = Fin 9\<rparr>"
  let ?t3 = "\<lparr>rpcUrl = ''url1'', apiKey = ''key1'', priceLower = Fin 9, priceUpper = Fin 16\<rparr>"
  have r1: "calculateLpValue_at ?A ?t1 ''nft'' ''pool'' 1 (Some 100) [] [] = Inr \<lparr>blockNumber = 100, tokenPrice = Fin 1, tokenXPrice = Fin 1, tokenYPrice = Fin 1,
            positionValue = Fin 12, unclaimedFees = Fin 8, totalValue = Fin 20\<rparr>"
    by (simp add: calculateLpValue_at_def overridePool_def overrides_def
          example_valuation_at_block_100)
  have r3: "calculateLpValue_at ?A ?t3 ''nft'' ''pool'' 1 None [] [] = Inr \<lparr>blockNumber = 7, tokenPrice = Fin 1, tokenXPrice = Fin 1, tokenYPrice = Fin 1,
            positionValue = Fin 24, unclaimedFees = Fin 8, totalValue = Fin 32\<rparr>"
    by (simp add: calculateLpValue_at_def overridePool_def overrides_def
          example_valuation_window_9_16)
  have same: "calculateLpValue_at ?A ?t1 ''nft'' ''pool'' 1 (Some 100) [] []
            = calculateLpValue_at ?B ?t2 ''nft'' ''pool'' 1 (Some 100) [] []"
    using valuation_depends_on_reads_and_window
            [where node = ?A and node' = ?B and this = ?t1 and this' = ?t2
               and pm = "''nft''" and pm' = "''nft''" and pa = "''pool''" and pa' = "''pool''"
               and pid = 1 and pid' = 1 and bn = "Some 100" and bn' = "Some 100"
               and xa = "[]" and xa' = "[]" and ya = "[]" and ya' = "[]"]
    by (simp add: overridePool_def)
  have fields: "tokenPrice r = tokenPrice r' \<and> tokenXPrice r = tokenXPrice r'
       \<and> tokenYPrice r = tokenYPrice r' \<and> unclaimedFees r = unclaimedFees r'"
    if "calculateLpValue_at ?A ?t1 ''nft'' ''pool'' 1 (Some 100) [] [] = Inr r"
      and "calculateLpValue_at ?A ?t3 ''nft'' ''pool'' 1 None [] [] = Inr r'" for r r'
    using that valuation_depends_on_reads_and_window
            [where node = ?A and node' = ?A and this = ?t1 and this' = ?t3
               and pm = "''nft''" and pm' = "''nft''" and pa = "''pool''" and pa' = "''pool''"
               and pid = 1 and pid' = 1 and bn = "Some 100" and bn' = None
               and xa = "[]" and xa' = "[]" and ya = "[]" and ya' = "[]"
               and r = r and r' = r']
    by (simp add: overridePool_def)
  from r1 r3 same fields [OF r1 r3] show ?thesis by simp
qed

section \<open>Classification of the position\<close>

text \<open>
  Claim C1, as stated, fails: in a pool at \<open>sqrtPriceX96 = 2 ^ 96\<close> and tick 0, the
  current square-root price is not above the lower bound of a position between the ticks 0
  and 2, and the decomposition takes the within-range branch.
\<close>

theorem positionBranch_lower_tie_counterexample:
  "n_le (decodeSqrtPrice (slot0_sqrtPriceX96 \<lparr>slot0_sqrtPriceX96 = 79228162514264337593543950336, slot0_tick = 0\<rparr>))
        (sqrtPriceFromTick (pos_tickLower \<lparr>pos_liquidity = 10001, pos_tickLower = 0, pos_tickUpper = 2\<rparr>))
   \<and> positionBranch (slot0_tick \<lparr>slot0_sqrtPriceX96 = 79228162514264337593543950336, slot0_tick = 0\<rparr>) (pos_tickLower \<lparr>pos_liquidity = 10001, pos_tickLower = 0, pos_tickUpper = 2\<rparr>) (pos_tickUpper \<lparr>pos_liquidity = 10001, pos_tickLower = 0, pos_tickUpper = 2\<rparr>) = WithinRange"
  by (simp add: decodeSqrtPrice_Fin sqrtPriceFromTick_0 positionBranch_def)

text \<open>
  Claim C1, amended. The decomposition classifies by tick index with strict comparisons,
  not by comparing square-root prices. Whenever the current tick is below \<open>tickLower\<close>
  the below-range result is returned (\<open>amount0 = L * (1 / lo - 1 / hi)\<close>,
  \<open>amount1 = 0\<close>); whenever it is above \<open>tickUpper\<close> (and \<open>tickLower \<le> tickUpper\<close>)
  the above-range result is returned (\<open>amount0 = 0\<close>, \<open>amount1 = L * (hi - lo)\<close>);
  whenever \<open>tickLower \<le> currentTick < tickUpper\<close> the within-range result is returned
  (\<open>amount0 = L * (1 / c - 1 / hi)\<close>, \<open>amount1 = L * (c - lo)\<close>), so that a current
  square-root price at the lower bound, in the tick \<open>tickLower\<close>, is classified into the
  within-range branch.
\<close>

theorem positionAmounts_by_tick:
  "(slot0_tick s < pos_tickLower p \<longrightarrow>
      positionAmounts p s =
        (n_mul (Fin (real_of_int (pos_liquidity p)))
           (n_sub (pow_m1 (sqrtPriceFromTick (pos_tickLower p)))
                  (pow_m1 (sqrtPriceFromTick (pos_tickUpper p)))),
         Fin 0))
   \<and> (pos_tickLower p \<le> pos_tickUpper p \<and> pos_tickUpper p < slot0_tick s \<longrightarrow>
      positionAmounts p s =
        (Fin 0,
         n_mul (Fin (real_of_int (pos_liquidity p)))
           (n_sub (sqrtPriceFromTick (pos_tickUpper p)) (sqrtPriceFromTick (pos_tickLower p)))))
   \<and> (pos_tickLower p \<le> slot0_tick s \<and> slot0_tick s < pos_tickUpper p \<longrightarrow>
      positionAmounts p s =
        (n_mul (Fin (real_of_int (pos_liquidity p)))
           (n_sub (pow_m1 (decodeSqrtPrice (slot0_sqrtPriceX96 s)))
                  (pow_m1 (sqrtPriceFromTick (pos_tickUpper p)))),
         n_mul (Fin (real_of_int (pos_liquidity p)))
           (n_sub (decodeSqrtPrice (slot0_sqrtPriceX96 s)) (sqrtPriceFromTick (pos_tickLower p)))))"
  by (simp add: positionAmounts_def positionBranch_def Let_def)

text \<open>The theorem at a position of liquidity 10001 between the ticks 0 and 2 (square-root
  prices 1 and 1.0001), in a pool at the square-root price \<open>1 - 2 ^ -16\<close> (tick \<open>-1\<close>), at
  the square-root price 2 (tick 13863) and at the square-root price \<open>1 + 2 ^ -15\<close>
  (tick 0).\<close>

theorem positionAmounts_by_tick_witness:
  "slot0_tick \<lparr>slot0_sqrtPriceX96 = 79226953588444722964369244160, slot0_tick = - 1\<rparr> < pos_tickLower \<lparr>pos_liquidity = 10001, pos_tickLower = 0, pos_tickUpper = 2\<rparr>
   \<and> positionAmounts \<lparr>pos_liquidity = 10001, pos_tickLower = 0, pos_tickUpper = 2\<rparr> \<lparr>slot0_sqrtPriceX96 = 79226953588444722964369244160, slot0_tick = - 1\<rparr> = (Fin 1, Fin 0)
   \<and> pos_tickLower \<lparr>pos_liquidity = 10001, pos_tickLower = 0, pos_tickUpper = 2\<rparr> \<le> pos_tickUpper \<lparr>pos_liquidity = 10001, pos_tickLower = 0, pos_tickUpper = 2\<rparr>
   \<and> pos_tickUpper \<lparr>pos_liquidity = 10001, pos_tickLower = 0, pos_tickUpper = 2\<rparr> < slot0_tick \<lparr>slot0_sqrtPriceX96 = 158456325028528675187087900672, slot0_tick = 13863\<rparr>
   \<and> positionAmounts \<lparr>pos_liquidity = 10001, pos_tickLower = 0, pos_tickUpper = 2\<rparr> \<lparr>slot0_sqrtPriceX96 = 158456325028528675187087900672, slot0_tick = 13863\<rparr> = (Fin 0, Fin (10001 / 10000))
   \<and> pos_tickLower \<lparr>pos_liquidity = 10001, pos_tickLower = 0, pos_tickUpper = 2\<rparr> \<le> slot0_tick \<lparr>slot0_sqrtPriceX96 = 79230580365903566851893362688, slot0_tick = 0\<rparr>
   \<and> slot0_tick \<lparr>slot0_sqrtPriceX96 = 79230580365903566851893362688, slot0_tick = 0\<rparr> < pos_tickUpper \<lparr>pos_liquidity = 10001, pos_tickLower = 0, pos_tickUpper = 2\<rparr>
   \<and> positionAmounts \<lparr>pos_liquidity = 10001, pos_tickLower = 0, pos_tickUpper = 2\<rparr> \<lparr>slot0_sqrtPriceX96 = 79230580365903566851893362688, slot0_tick = 0\<rparr> = (Fin (22768 / 32769), Fin (10001 / 32768))"
  using positionAmounts_by_tick [of "\<lparr>slot0_sqrtPriceX96 = 79226953588444722964369244160, slot0_tick = - 1\<rparr>" "\<lparr>pos_liquidity = 10001, pos_tickLower = 0, pos_tickUpper = 2\<rparr>"]
        positionAmounts_by_tick [of "\<lparr>slot0_sqrtPriceX96 = 158456325028528675187087900672, slot0_tick = 13863\<rparr>" "\<lparr>pos_liquidity = 10001, pos_tickLower = 0, pos_tickUpper = 2\<rparr>"]
        positionAmounts_by_tick [of "\<lparr>slot0_sqrtPriceX96 = 79230580365903566851893362688, slot0_tick = 0\<rparr>" "\<lparr>pos_liquidity = 10001, pos_tickLower = 0, pos_tickUpper = 2\<rparr>"]
  by (simp add: sqrtPriceFromTick_0 sqrtPriceFromTick_2 decodeSqrtPrice_Fin pow_m1_def n_sub_def)

section \<open>Sign of the amounts\<close>

text \<open>
  Claim C4 says that a position of non-negative liquidity with \<open>tickLower < tickUpper\<close>,
  in a pool of non-negative square-root price, has two non-negative amounts. The code
  breaks it at a position of liquidity 65537 between the ticks \<open>-2\<close> and 0, in a pool at
  the square-root price \<open>1 + 2 ^ -16\<close>, which lies in tick 0: the current tick equals
  \<open>tickUpper\<close>, the comparison \<^verbatim>\<open>currentTick > tickUpper\<close> fails, the within-range
  formulas are applied above the range, and \<open>amount0\<close> is \<open>-1\<close>.
\<close>

theorem getPositionAmounts_negative_at_upper_tick:
  "getPositionAmounts
     \<lparr>positions = Some \<lparr>pos_liquidity = 65537, pos_tickLower = - 2, pos_tickUpper = 0\<rparr>,
      collect_staticCall = Some \<lparr>fee_amount0 = 0, fee_amount1 = 0\<rparr>\<rparr>
     \<lparr>pool_slot0 = Some \<lparr>slot0_sqrtPriceX96 = 79229371440083952222718656512, slot0_tick = 0\<rparr>,
      pool_decimals0 = Some 18, pool_decimals1 = Some 18\<rparr>
   = Inr (Fin (- 1), Fin (4950468369 / 655425536), Fin 0, Fin 0)"
  by (simp add: getPositionAmounts_def positionAmounts_def positionBranch_def Let_def
        decodeSqrtPrice_Fin sqrtPriceFromTick_0 sqrtPriceFromTick_m2 pow_m1_def n_sub_def)

text \<open>Over exact arithmetic, which is what the number type of this theory is: for a pool
  state whose tick is the tick of its square-root price, a position of non-negative
  liquidity and \<open>tickLower < tickUpper\<close> has two non-negative amounts whenever the current
  tick is not \<open>tickUpper\<close>. The source rounds every operation, and there an amount that
  is zero here can come out as a negative number of the size of one rounding step.\<close>

lemma positionAmounts_nonneg_off_upper_tick:
  assumes L: "0 \<le> pos_liquidity p"
    and ticks: "pos_tickLower p < pos_tickUpper p"
    and t1: "n_le (sqrtPriceFromTick (slot0_tick s)) (decodeSqrtPrice (slot0_sqrtPriceX96 s))"
    and t2: "n_lt (decodeSqrtPrice (slot0_sqrtPriceX96 s)) (sqrtPriceFromTick (slot0_tick s + 1))"
    and off: "slot0_tick s \<noteq> pos_tickUpper p"
  shows "\<exists>a0 a1. positionAmounts p s = (Fin a0, Fin a1) \<and> 0 \<le> a0 \<and> 0 \<le> a1"
proof -
  obtain c where c: "decodeSqrtPrice (slot0_sqrtPriceX96 s) = Fin c"
    using decodeSqrtPrice_Fin by blast
  define l where "l = (1.0001::real) powr (real_of_int (pos_tickLower p) / 2)"
  define h where "h = (1.0001::real) powr (real_of_int (pos_tickUpper p) / 2)"
  define k where "k = real_of_int (pos_liquidity p)"
  have lo: "sqrtPriceFromTick (pos_tickLower p) = Fin l"
    and hi: "sqrtPriceFromTick (pos_tickUpper p) = Fin h"
    by (simp_all add: sqrtPriceFromTick_def l_def h_def)
  have k: "0 \<le> k" using L by (simp add: k_def)
  have lpos: "0 < l" and hpos: "0 < h" by (simp_all add: l_def h_def)
  have lh: "l < h" using ticks by (simp add: l_def h_def)
  have c1: "(1.0001::real) powr (real_of_int (slot0_tick s) / 2) \<le> c"
    using t1 unfolding c sqrtPriceFromTick_def by simp
  have c2: "c < (1.0001::real) powr (real_of_int (slot0_tick s + 1) / 2)"
    using t2 unfolding c sqrtPriceFromTick_def by simp
  have "0 < (1.0001::real) powr (real_of_int (slot0_tick s) / 2)" by simp
  then have cpos: "0 < c" using c1 by (rule less_le_trans)
  consider (below) "slot0_tick s < pos_tickLower p"
    | (above) "pos_tickUpper p < slot0_tick s"
    | (within) "pos_tickLower p \<le> slot0_tick s" "slot0_tick s < pos_tickUpper p"
    using off by linarith
  then show ?thesis
  proof cases
    case below
    have "1 / h \<le> 1 / l" using lpos lh by (intro frac_le) simp_all
    then have "0 \<le> 1 / l - 1 / h" by simp
    with k have "0 \<le> k * (1 / l - 1 / h)" by (rule mult_nonneg_nonneg)
    with below lpos hpos show ?thesis
      by (simp add: positionAmounts_def positionBranch_def Let_def lo hi pow_m1_def n_sub_def
            k_def)
  next
    case above
    have "0 \<le> k * (h - l)" using k lh by simp
    with above ticks show ?thesis
      by (simp add: positionAmounts_def positionBranch_def Let_def lo hi n_sub_def k_def)
  next
    case within
    have "l \<le> (1.0001::real) powr (real_of_int (slot0_tick s) / 2)"
      using within(1) by (simp add: l_def)
    with c1 have lc: "l \<le> c" by linarith
    have "(1.0001::real) powr (real_of_int (slot0_tick s + 1) / 2) \<le> h"
      using within(2) by (simp add: h_def)
    with c2 have ch: "c < h" by linarith
    have "1 / h \<le> 1 / c" using cpos ch by (intro frac_le) simp_all
    then have "0 \<le> 1 / c - 1 / h" by simp
    with k have a0: "0 \<le> k * (1 / c - 1 / h)" by (rule mult_nonneg_nonneg)
    have a1: "0 \<le> k * (c - l)" using k lc by simp
    from within a0 a1 cpos hpos show ?thesis
      by (simp add: positionAmounts_def positionBranch_def Let_def c lo hi pow_m1_def n_sub_def
            k_def)
  qed
qed

section \<open>Liquidity from amounts and the decomposition\<close>





text \<open>Over exact arithmetic, which is what the number type of this theory is, the two
  single-asset liquidities of the decomposed amounts both equal the liquidity of the
  position. The source rounds every operation, and there they equal it up to rounding
  only.\<close>

lemma calculateV3Liquidity_roundtrip_within:
  assumes "0 < l" "l < c" "c < h"
  shows "calculateV3Liquidity
           (n_mul (Fin L) (n_sub (pow_m1 (Fin c)) (pow_m1 (Fin h))))
           (n_mul (Fin L) (n_sub (Fin c) (Fin l)))
           (Fin c) (Fin l) (Fin h) = Fin L"
proof -
  have nz: "c \<noteq> 0" "h \<noteq> 0" "h - c \<noteq> 0" "c - l \<noteq> 0" using assms by auto
  have x: "L * (1 / c - 1 / h) * (h * c) / (h - c) = L"
    using nz by (simp add: field_simps)
  have y: "L * (c - l) / (c - l) = L" using nz by simp
  show ?thesis
    using assms nz x y
    by (simp add: calculateV3Liquidity_def pow_m1_def n_sub_def n_ge_def Let_def)
qed

end
